theory Spec2Isabelle
  imports Complex_Main "HOL-Library.Code_Target_Numeral"
begin

section \<open>Data model (types/gallery)\<close>

text \<open>
  The gallery image of the backend contract. JavaScript numbers that hold
  identifiers, display orders, indices and pixel counts are modelled as
  unbounded integers.
\<close>

record GalleryImage =
  image_id :: int
  cloudinary_url :: string
  caption :: "string option"
  display_order :: int

record PaginationMetadata =
  next_cursor :: "int option"
  has_more :: bool
  total_count :: int

record GalleryResponse =
  images :: "GalleryImage list"
  pagination :: PaginationMetadata

section \<open>JavaScript helpers\<close>

text \<open>
  The remainder operator \<open>%\<close> of JavaScript truncates towards zero: the result
  has the sign of the dividend. The divisor is never zero where the model uses it.
\<close>

definition js_rem :: "int \<Rightarrow> int \<Rightarrow> int" where
  "js_rem a b = sgn a * (\<bar>a\<bar> mod \<bar>b\<bar>)"

text \<open>\<open>Array.prototype.findIndex\<close>: the first index whose element satisfies
  the predicate, \<open>-1\<close> when there is none.\<close>

fun findIndex :: "('a \<Rightarrow> bool) \<Rightarrow> 'a list \<Rightarrow> int" where
  "findIndex P [] = - 1"
| "findIndex P (x # xs) =
     (if P x then 0
      else (let r = findIndex P xs in if r = - 1 then - 1 else r + 1))"

text \<open>Decimal rendering of a natural number, as template literals do.\<close>

fun string_of_nat :: "nat \<Rightarrow> string" where
  "string_of_nat n =
     (if n < 10 then [''0123456789'' ! n]
      else string_of_nat (n div 10) @ [''0123456789'' ! (n mod 10)])"

section \<open>Lightbox navigation state machine (useLightbox)\<close>

type_synonym HTMLElement = nat

record LightboxState =
  isOpen :: bool
  currentIndex :: int
  triggerElementRef :: "HTMLElement option"

text \<open>\<open>useState(false)\<close>, \<open>useState(initialIndex)\<close>, \<open>useRef(null)\<close>.\<close>

definition useLightbox :: "int \<Rightarrow> LightboxState" where
  "useLightbox initialIndex =
     \<lparr>isOpen = False, currentIndex = initialIndex, triggerElementRef = None\<rparr>"

text \<open>\<open>images[currentIndex] || null\<close>: an index outside the array reads
  \<open>undefined\<close>, which becomes \<open>null\<close>.\<close>

definition currentImage :: "GalleryImage list \<Rightarrow> LightboxState \<Rightarrow> GalleryImage option" where
  "currentImage imgs s =
     (if 0 \<le> currentIndex s \<and> currentIndex s < int (length imgs)
      then Some (imgs ! nat (currentIndex s)) else None)"

definition hasNext :: "GalleryImage list \<Rightarrow> LightboxState \<Rightarrow> bool" where
  "hasNext imgs s = (currentIndex s < int (length imgs) - 1)"

definition hasPrevious :: "GalleryImage list \<Rightarrow> LightboxState \<Rightarrow> bool" where
  "hasPrevious imgs s = (currentIndex s > 0)"

datatype open_arg = ByIndex int | ByImage GalleryImage

text \<open>
  \<open>open(imageOrIndex, triggerElement)\<close>. The second and third argument are the
  trigger element passed by the caller and \<open>document.activeElement\<close> (when it
  is an HTMLElement).
\<close>

definition open_lightbox ::
  "GalleryImage list \<Rightarrow> open_arg \<Rightarrow> HTMLElement option \<Rightarrow> HTMLElement option
     \<Rightarrow> LightboxState \<Rightarrow> LightboxState" where
  "open_lightbox imgs imageOrIndex triggerElement activeElement s =
     (let ref = (case triggerElement of
                   Some t \<Rightarrow> Some t
                 | None \<Rightarrow> (case activeElement of Some a \<Rightarrow> Some a | None \<Rightarrow> None));
          idx = (case imageOrIndex of
                   ByIndex n \<Rightarrow> max 0 (min n (int (length imgs) - 1))
                 | ByImage im \<Rightarrow>
                     (let index = findIndex (\<lambda>img. image_id img = image_id im) imgs
                      in if index \<noteq> - 1 then index else int (length imgs)))
      in \<lparr>isOpen = True, currentIndex = idx, triggerElementRef = ref\<rparr>)"

text \<open>\<open>close()\<close>: the synchronous part; the deferred focus restoration is
  \<open>close_timeout\<close>, which returns the element that receives focus, if any.\<close>

definition close_lightbox :: "LightboxState \<Rightarrow> LightboxState" where
  "close_lightbox s = s\<lparr>isOpen := False\<rparr>"

definition close_timeout ::
  "(HTMLElement \<Rightarrow> bool) \<Rightarrow> LightboxState \<Rightarrow> HTMLElement option \<times> LightboxState" where
  "close_timeout document_contains s =
     ((case triggerElementRef s of
         Some t \<Rightarrow> if document_contains t then Some t else None
       | None \<Rightarrow> None),
      s\<lparr>triggerElementRef := None\<rparr>)"

definition goTo :: "GalleryImage list \<Rightarrow> int \<Rightarrow> LightboxState \<Rightarrow> LightboxState" where
  "goTo imgs index s =
     s\<lparr>currentIndex := max 0 (min index (int (length imgs) - 1))\<rparr>"

definition goToNext :: "GalleryImage list \<Rightarrow> LightboxState \<Rightarrow> LightboxState" where
  "goToNext imgs s =
     (if length imgs = 0 then s
      else s\<lparr>currentIndex := js_rem (currentIndex s + 1) (int (length imgs))\<rparr>)"

definition goToPrevious :: "GalleryImage list \<Rightarrow> LightboxState \<Rightarrow> LightboxState" where
  "goToPrevious imgs s =
     (if length imgs = 0 then s
      else s\<lparr>currentIndex :=
             js_rem (currentIndex s - 1 + int (length imgs)) (int (length imgs))\<rparr>)"

text \<open>The operations a caller can dispatch, and a run of them over a fixed
  collection.\<close>

datatype lightbox_op =
    Open open_arg "HTMLElement option" "HTMLElement option"
  | Close
  | GoTo int
  | GoToNext
  | GoToPrevious

fun lightbox_step :: "GalleryImage list \<Rightarrow> LightboxState \<Rightarrow> lightbox_op \<Rightarrow> LightboxState" where
  "lightbox_step imgs s (Open a t e) = open_lightbox imgs a t e s"
| "lightbox_step imgs s Close = close_lightbox s"
| "lightbox_step imgs s (GoTo i) = goTo imgs i s"
| "lightbox_step imgs s GoToNext = goToNext imgs s"
| "lightbox_step imgs s GoToPrevious = goToPrevious imgs s"

definition lightbox_run :: "GalleryImage list \<Rightarrow> lightbox_op list \<Rightarrow> LightboxState \<Rightarrow> LightboxState" where
  "lightbox_run imgs ops s = foldl (lightbox_step imgs) s ops"

text \<open>An operation resolves over a collection unless it opens the lightbox by
  an image whose id the collection does not contain.\<close>

fun op_resolves :: "GalleryImage list \<Rightarrow> lightbox_op \<Rightarrow> bool" where
  "op_resolves imgs (Open (ByImage im) t e) = (image_id im \<in> image_id ` set imgs)"
| "op_resolves imgs x = True"

definition valid_index :: "GalleryImage list \<Rightarrow> LightboxState \<Rightarrow> bool" where
  "valid_index imgs s = (0 \<le> currentIndex s \<and> currentIndex s < int (length imgs))"

text \<open>The three images of the hook's test suite, and an image that is not
  among them.\<close>

definition mockImages :: "GalleryImage list" where
  "mockImages =
     [\<lparr>image_id = 1, cloudinary_url = ''https://example.com/image1.jpg'',
        caption = Some ''Image 1'', display_order = 1\<rparr>,
      \<lparr>image_id = 2, cloudinary_url = ''https://example.com/image2.jpg'',
        caption = Some ''Image 2'', display_order = 2\<rparr>,
      \<lparr>image_id = 3, cloudinary_url = ''https://example.com/image3.jpg'',
        caption = Some ''Image 3'', display_order = 3\<rparr>]"

definition strayImage :: GalleryImage where
  "strayImage =
     \<lparr>image_id = 99, cloudinary_url = ''https://example.com/image99.jpg'',
      caption = None, display_order = 99\<rparr>"

section \<open>Pagination accumulator (useGalleryImagesInfinite)\<close>

text \<open>The \<open>data\<close> of the infinite query: the pages in the order the query
  stores them, and the cursor each one was requested with.\<close>

record InfiniteData =
  pages :: "GalleryResponse list"
  pageParams :: "int option list"

definition getNextPageParam :: "GalleryResponse \<Rightarrow> int option" where
  "getNextPageParam lastPage =
     (if has_more (pagination lastPage) then next_cursor (pagination lastPage) else None)"

text \<open>\<open>data?.pages.flatMap(page => page.images) ?? []\<close>\<close>

definition flattenGalleryImages :: "InfiniteData option \<Rightarrow> GalleryImage list" where
  "flattenGalleryImages data =
     (case data of None \<Rightarrow> [] | Some d \<Rightarrow> concat (map images (pages d)))"

text \<open>The two pages of the flattening test: ids 1, 2 and ids 3, 4, with
  display orders equal to the ids.\<close>

definition testImage :: "int \<Rightarrow> GalleryImage" where
  "testImage n = \<lparr>image_id = n, cloudinary_url = ''url'' @ string_of_nat (nat n),
                   caption = Some (''Image '' @ string_of_nat (nat n)), display_order = n\<rparr>"

definition firstPage :: GalleryResponse where
  "firstPage = \<lparr>images = [testImage 1, testImage 2],
                 pagination = \<lparr>next_cursor = Some 3, has_more = True, total_count = 10\<rparr>\<rparr>"

definition secondPage :: GalleryResponse where
  "secondPage = \<lparr>images = [testImage 3, testImage 4],
                  pagination = \<lparr>next_cursor = None, has_more = False, total_count = 10\<rparr>\<rparr>"

subsection \<open>The API client and the retry predicate\<close>

text \<open>
  What the client can observe of one request. The body of a failed response is
  either not JSON, JSON without a truthy \<open>detail\<close>, or JSON with a truthy
  \<open>detail\<close>: a string, or any other value, given by its \<open>message\<close> property
  (when present) and its \<open>JSON.stringify\<close> text.
\<close>

datatype json_detail = DetailString string | DetailObject "string option" string

datatype error_body = NotJson | NoDetail | Detail json_detail

datatype fetch_result =
    FetchRejected string
  | FetchRejectedNonError
  | HttpError nat string error_body
  | HttpOk "string + GalleryResponse"

definition errorMessage :: "nat \<Rightarrow> string \<Rightarrow> error_body \<Rightarrow> string" where
  "errorMessage status statusText b =
     (let default = ''Gallery API error: '' @ string_of_nat status @ '' '' @ statusText
      in case b of
           NotJson \<Rightarrow> default
         | NoDetail \<Rightarrow> default
         | Detail (DetailString d) \<Rightarrow> if d \<noteq> [] then d else default
         | Detail (DetailObject m js) \<Rightarrow>
             (case m of
                Some msg \<Rightarrow> if msg \<noteq> [] then msg else js
              | None \<Rightarrow> js))"

text \<open>\<open>GalleryApiClient.fetchGalleryImages\<close>: \<open>Inl\<close> carries the message of
  the Error it throws.\<close>

definition fetchGalleryImages :: "fetch_result \<Rightarrow> string + GalleryResponse" where
  "fetchGalleryImages r =
     (case r of
        FetchRejected m \<Rightarrow> Inl (''Gallery fetch failed: '' @ m)
      | FetchRejectedNonError \<Rightarrow> Inl ''Gallery fetch failed: Unknown error''
      | HttpError status statusText b \<Rightarrow>
          Inl (''Gallery fetch failed: '' @ errorMessage status statusText b)
      | HttpOk (Inl m) \<Rightarrow> Inl (''Gallery fetch failed: '' @ m)
      | HttpOk (Inr d) \<Rightarrow> Inr d)"

text \<open>The \<open>retry\<close> option of the query: \<open>error.message.includes('4')\<close> asks
  whether the character 4 occurs in the message.\<close>

definition retry :: "nat \<Rightarrow> string \<Rightarrow> bool" where
  "retry failureCount message =
     (if CHR ''4'' \<in> set message then False else failureCount < 3)"

section \<open>Deep-link effect (GalleryContainer)\<close>

text \<open>
  A string is a sequence of code units below 256. Of the white space that
  \<open>parseInt\<close> strips, the ones in that range are the six ASCII characters
  and the no-break space U+00A0.
\<close>

definition is_js_space :: "char \<Rightarrow> bool" where
  "is_js_space c =
     (c \<in> set [CHR '' '', CHR 0x09, CHR 0x0A, CHR 0x0B, CHR 0x0C, CHR 0x0D, CHR 0xA0])"

definition is_digit :: "char \<Rightarrow> bool" where
  "is_digit c = (48 \<le> (of_char c :: nat) \<and> (of_char c :: nat) \<le> 57)"

text \<open>
  The Number value of a natural number: itself below \<open>2^53\<close>, otherwise the
  nearest number with a 53-bit significand, ties to the even significand,
  and \<open>None\<close> (Infinity) when that reaches \<open>2^1024\<close>.
\<close>

fun bit_length :: "nat \<Rightarrow> nat" where
  "bit_length n = (if n = 0 then 0 else Suc (bit_length (n div 2)))"

definition to_double :: "nat \<Rightarrow> nat option" where
  "to_double v =
     (if v < 2 ^ 53 then Some v
      else
        (let q = 2 ^ (bit_length v - 53);
             m = v div q;
             r = v mod q;
             m' = (if 2 * r > q \<or> (2 * r = q \<and> odd m) then m + 1 else m)
         in if m' * q \<ge> 2 ^ 1024 then None else Some (m' * q)))"

datatype js_integer = IntNaN | IntVal int | IntPosInfinity | IntNegInfinity

text \<open>
  \<open>parseInt(s, 10)\<close>: leading white space, an optional sign, then the
  longest run of decimal digits, whose value is rounded to a Number. (For
  more than 20 significant digits ECMAScript lets an implementation replace
  the digits after the 20th by 0 before rounding; the model rounds the exact
  value.)
\<close>

definition parseInt :: "string \<Rightarrow> js_integer" where
  "parseInt s =
     (let t = dropWhile is_js_space s;
          neg = (case t of c # _ \<Rightarrow> c = CHR ''-'' | [] \<Rightarrow> False);
          u = (case t of c # r \<Rightarrow> if c = CHR ''-'' \<or> c = CHR ''+'' then r else t | [] \<Rightarrow> []);
          ds = takeWhile is_digit u;
          v = foldl (\<lambda>a c. 10 * a + (of_char c - 48)) (0::nat) ds
      in if ds = [] then IntNaN
         else (case to_double v of
                 None \<Rightarrow> if neg then IntNegInfinity else IntPosInfinity
               | Some d \<Rightarrow> IntVal (if neg then - int d else int d)))"

text \<open>\<open>img.id === targetImageId\<close>; image ids are integers.\<close>

definition same_id :: "js_integer \<Rightarrow> GalleryImage \<Rightarrow> bool" where
  "same_id target img = (case target of IntVal n \<Rightarrow> image_id img = n | _ \<Rightarrow> False)"

datatype deep_link_action =
    NoAction
  | OpenLightbox GalleryImage
  | FetchNextPage
  | NavigateNotFound

text \<open>
  The effect that resolves a deep-linked image id. \<open>initialImageId\<close> is the
  optional prop, \<open>paramsImageId\<close> the optional route parameter. A number is
  falsy when it is undefined, NaN or 0, a string when it is undefined or empty.
\<close>

definition deepLinkEffect ::
  "int option \<Rightarrow> string option \<Rightarrow> bool \<Rightarrow> GalleryImage list \<Rightarrow> bool \<Rightarrow> bool
     \<Rightarrow> deep_link_action" where
  "deepLinkEffect initialImageId paramsImageId isLoading imgs hasNextPage isFetchingNextPage =
     (let propTruthy = (case initialImageId of Some n \<Rightarrow> n \<noteq> 0 | None \<Rightarrow> False);
          paramTruthy = (case paramsImageId of Some p \<Rightarrow> p \<noteq> [] | None \<Rightarrow> False)
      in if \<not> propTruthy \<and> \<not> paramTruthy then NoAction
         else if isLoading \<or> length imgs = 0 then NoAction
         else
           (let targetImageId =
                  (if propTruthy
                   then (case initialImageId of Some n \<Rightarrow> Some (IntVal n) | None \<Rightarrow> None)
                   else (case paramsImageId of
                           Some p \<Rightarrow> if p \<noteq> [] then Some (parseInt p) else None
                         | None \<Rightarrow> None))
            in case targetImageId of
                 None \<Rightarrow> NoAction
               | Some target \<Rightarrow>
                   if target = IntVal 0 \<or> target = IntNaN then NoAction
                   else
                     (let imageIndex = findIndex (same_id target) imgs
                      in if imageIndex \<noteq> - 1 then OpenLightbox (imgs ! nat imageIndex)
                         else if hasNextPage \<and> \<not> isFetchingNextPage then FetchNextPage
                         else NavigateNotFound)))"

section \<open>Viewport window calculator (VirtualizedGalleryGrid)\<close>


record WindowRange =
  start :: int
  end' :: int

text \<open>\<open>useState({ start: 0, end: 50 })\<close>\<close>

definition initialVisibleRange :: WindowRange where
  "initialVisibleRange = \<lparr>start = 0, end' = 50\<rparr>"

definition itemsPerRow :: "int \<Rightarrow> int" where
  "itemsPerRow innerWidth = (if innerWidth > 1024 then 3 else if innerWidth > 768 then 2 else 1)"







text \<open>The column count of the non-virtualized grid (\<open>getGridDimensions\<close> of
  components/features/GalleryGrid.tsx).\<close>

definition getGridDimensions_columns :: "int \<Rightarrow> int" where
  "getGridDimensions_columns viewportWidth =
     (if viewportWidth < 768 then 1
      else if viewportWidth < 1024 then 2
      else if viewportWidth < 1280 then 3
      else 4)"

section \<open>Pinch gesture recognizer (usePinchZoom)\<close>

text \<open>
  Coordinates, distances and the scale bounds are finite numbers, modelled as
  reals. A scale can also be one of the non-finite values that a division by a
  zero start distance produces.
\<close>

datatype jsnum = Num real | PosInfinity | NegInfinity | NaN

fun js_sgn :: "jsnum \<Rightarrow> int" where
  "js_sgn (Num x) = (if x > 0 then 1 else if x < 0 then - 1 else 0)"
| "js_sgn PosInfinity = 1"
| "js_sgn NegInfinity = - 1"
| "js_sgn NaN = 0"

fun js_mul :: "jsnum \<Rightarrow> jsnum \<Rightarrow> jsnum" where
  "js_mul NaN b = NaN"
| "js_mul a NaN = NaN"
| "js_mul (Num a) (Num b) = Num (a * b)"
| "js_mul a b =
     (if js_sgn a * js_sgn b = 0 then NaN
      else if js_sgn a * js_sgn b > 0 then PosInfinity else NegInfinity)"

text \<open>Division of two finite numbers.\<close>

definition js_div :: "real \<Rightarrow> real \<Rightarrow> jsnum" where
  "js_div a b =
     (if b \<noteq> 0 then Num (a / b)
      else if a > 0 then PosInfinity else if a < 0 then NegInfinity else NaN)"

fun js_le :: "jsnum \<Rightarrow> jsnum \<Rightarrow> bool" where
  "js_le NegInfinity b = True"
| "js_le a PosInfinity = True"
| "js_le (Num a) (Num b) = (a \<le> b)"
| "js_le a b = False"

fun js_min :: "jsnum \<Rightarrow> jsnum \<Rightarrow> jsnum" where
  "js_min NaN b = NaN"
| "js_min a NaN = NaN"
| "js_min a b = (if js_le a b then a else b)"

fun js_max :: "jsnum \<Rightarrow> jsnum \<Rightarrow> jsnum" where
  "js_max NaN b = NaN"
| "js_max a NaN = NaN"
| "js_max a b = (if js_le a b then b else a)"

type_synonym Touch = "real \<times> real"

record PinchState =
  initialDistance :: real
  initialScale :: jsnum
  touches :: "Touch \<times> Touch"

record PinchZoom =
  scale :: jsnum
  pinchStateRef :: "PinchState option"

text \<open>The defaults of the hook's options: \<open>minScale = 1\<close>, \<open>maxScale = 5\<close>,
  \<open>initialScale = 1\<close>.\<close>

definition minScale_default :: real where
  "minScale_default = 1"

definition maxScale_default :: real where
  "maxScale_default = 5"

definition initialScale_default :: real where
  "initialScale_default = 1"

definition usePinchZoom :: "real \<Rightarrow> PinchZoom" where
  "usePinchZoom initialScale0 = \<lparr>scale = Num initialScale0, pinchStateRef = None\<rparr>"

definition getDistance :: "Touch \<Rightarrow> Touch \<Rightarrow> real" where
  "getDistance touch1 touch2 =
     (let dx = fst touch2 - fst touch1; dy = snd touch2 - snd touch1
      in sqrt (dx * dx + dy * dy))"

text \<open>\<open>updateScale\<close> stores the clamped scale and hands the same value to
  \<open>onScaleChange\<close>; the model returns that value with the state.\<close>

definition updateScale :: "real \<Rightarrow> real \<Rightarrow> jsnum \<Rightarrow> PinchZoom \<Rightarrow> jsnum \<times> PinchZoom" where
  "updateScale minScale maxScale newScale st =
     (let clampedScale = js_max (Num minScale) (js_min (Num maxScale) newScale)
      in (clampedScale, st\<lparr>scale := clampedScale\<rparr>))"

text \<open>\<open>handleTouchStart\<close> records the pinch state inside a state updater that
  returns the scale unchanged; the model runs that updater at the touch start.\<close>

definition handleTouchStart :: "Touch list \<Rightarrow> PinchZoom \<Rightarrow> PinchZoom" where
  "handleTouchStart ts st =
     (case ts of
        [touch1, touch2] \<Rightarrow>
          st\<lparr>pinchStateRef :=
               Some \<lparr>initialDistance = getDistance touch1 touch2,
                     initialScale = scale st,
                     touches = (touch1, touch2)\<rparr>\<rparr>
      | _ \<Rightarrow> st\<lparr>pinchStateRef := None\<rparr>)"

text \<open>The first component is the scale emitted by this move, if any.\<close>

definition handleTouchMove ::
  "real \<Rightarrow> real \<Rightarrow> Touch list \<Rightarrow> PinchZoom \<Rightarrow> jsnum option \<times> PinchZoom" where
  "handleTouchMove minScale maxScale ts st =
     (case pinchStateRef st of
        None \<Rightarrow> (None, st)
      | Some state \<Rightarrow>
          (case ts of
             [touch1, touch2] \<Rightarrow>
               (let currentDistance = getDistance touch1 touch2;
                    scaleChange = js_div currentDistance (initialDistance state);
                    newScale = js_mul (initialScale state) scaleChange;
                    (emitted, st') = updateScale minScale maxScale newScale st
                in (Some emitted, st'))
           | _ \<Rightarrow> (None, st)))"

definition handleTouchEnd :: "Touch list \<Rightarrow> PinchZoom \<Rightarrow> PinchZoom" where
  "handleTouchEnd ts st = (if length ts < 2 then st\<lparr>pinchStateRef := None\<rparr> else st)"

definition reset :: "real \<Rightarrow> real \<Rightarrow> real \<Rightarrow> PinchZoom \<Rightarrow> jsnum \<times> PinchZoom" where
  "reset minScale maxScale initialScale0 st = updateScale minScale maxScale (Num initialScale0) st"

section \<open>Lightbox: helper lemmas\<close>

lemma js_rem_nonneg: "0 \<le> a \<Longrightarrow> 0 < b \<Longrightarrow> js_rem a b = a mod b"
  by (cases "a = 0") (simp_all add: js_rem_def)

lemma findIndex_range:
  "findIndex P xs = - 1 \<or> (0 \<le> findIndex P xs \<and> findIndex P xs < int (length xs))"
  by (induction xs) (auto simp: Let_def)

lemma findIndex_found: "x \<in> set xs \<Longrightarrow> P x \<Longrightarrow> findIndex P xs \<noteq> - 1"
proof (induction xs)
  case Nil
  then show ?case by simp
next
  case (Cons y ys)
  show ?case
  proof (cases "P y")
    case True
    then show ?thesis by simp
  next
    case False
    then have "x \<in> set ys" using Cons.prems(1,2) by auto
    then have "findIndex P ys \<noteq> - 1" using Cons.IH Cons.prems(2) by simp
    moreover have "findIndex P ys = - 1 \<or> 0 \<le> findIndex P ys"
      using findIndex_range [of P ys] by blast
    ultimately show ?thesis using False by (simp add: Let_def)
  qed
qed

lemma lightbox_step_empty_index:
  "currentIndex s = 0 \<Longrightarrow> currentIndex (lightbox_step [] s x) = 0"
  by (cases x)
     (auto simp: open_lightbox_def close_lightbox_def goTo_def goToNext_def
                 goToPrevious_def Let_def split: open_arg.splits)

lemma lightbox_run_empty_index:
  "currentIndex s = 0 \<Longrightarrow> currentIndex (lightbox_run [] ops s) = 0"
  unfolding lightbox_run_def
  by (induction ops arbitrary: s) (simp_all add: lightbox_step_empty_index)

lemma goToNext_iter:
  assumes "imgs \<noteq> []" and "0 \<le> currentIndex s"
  shows "(goToNext imgs ^^ k) s =
           s\<lparr>currentIndex := (if k = 0 then currentIndex s
                               else (currentIndex s + int k) mod int (length imgs))\<rparr>"
proof (induction k)
  case 0
  show ?case by simp
next
  case (Suc k)
  let ?n = "int (length imgs)"
  have n: "0 < ?n" using assms(1) by simp
  show ?case
  proof (cases "k = 0")
    case True
    then show ?thesis
      using assms n by (simp add: goToNext_def js_rem_nonneg)
  next
    case False
    have "0 \<le> (currentIndex s + int k) mod ?n" using n by simp
    then have "js_rem ((currentIndex s + int k) mod ?n + 1) ?n
                 = ((currentIndex s + int k) mod ?n + 1) mod ?n"
      using n by (intro js_rem_nonneg) simp_all
    also have "\<dots> = (currentIndex s + int (Suc k)) mod ?n"
      by (metis add.assoc mod_add_left_eq of_nat_Suc add.commute)
    finally show ?thesis
      using False Suc assms(1) by (simp add: goToNext_def)
  qed
qed

lemma goToPrevious_index:
  assumes "imgs \<noteq> []" and "0 \<le> currentIndex s"
  shows "currentIndex (goToPrevious imgs s) =
           (currentIndex s - 1 + int (length imgs)) mod int (length imgs)"
proof -
  have "0 \<le> currentIndex s - 1 + int (length imgs)"
    using assms by (cases imgs) simp_all
  moreover have "0 < int (length imgs)" using assms(1) by simp
  ultimately show ?thesis
    using assms(1) by (simp add: goToPrevious_def js_rem_nonneg)
qed

text \<open>Over a non-empty collection every operation that resolves leaves the
  index inside the collection.\<close>

lemma lightbox_step_valid_index:
  assumes "imgs \<noteq> []" and "valid_index imgs s" and "op_resolves imgs x"
  shows "valid_index imgs (lightbox_step imgs s x)"
proof (cases x)
  case (Open a t e)
  show ?thesis
  proof (cases a)
    case (ByIndex n)
    then show ?thesis
      using Open assms(1) by (cases imgs) (auto simp: valid_index_def open_lightbox_def)
  next
    case (ByImage im)
    then obtain y where y: "y \<in> set imgs" "image_id y = image_id im"
      using Open assms(3) by auto
    let ?i = "findIndex (\<lambda>img. image_id img = image_id im) imgs"
    have "?i \<noteq> - 1" using findIndex_found [OF y(1), of "\<lambda>img. image_id img = image_id im"] y(2) by simp
    moreover have "?i = - 1 \<or> (0 \<le> ?i \<and> ?i < int (length imgs))"
      by (rule findIndex_range)
    ultimately show ?thesis
      using Open ByImage by (simp add: valid_index_def open_lightbox_def Let_def)
  qed
next
  case Close
  then show ?thesis using assms(2) by (simp add: valid_index_def close_lightbox_def)
next
  case (GoTo i)
  then show ?thesis
    using assms(1) by (cases imgs) (auto simp: valid_index_def goTo_def)
next
  case GoToNext
  have "0 \<le> currentIndex s + 1" using assms(2) by (simp add: valid_index_def)
  then have "js_rem (currentIndex s + 1) (int (length imgs))
               = (currentIndex s + 1) mod int (length imgs)"
    using assms(1) by (intro js_rem_nonneg) simp_all
  then show ?thesis
    using GoToNext assms(1) by (simp add: valid_index_def goToNext_def)
next
  case GoToPrevious
  have "0 \<le> currentIndex s" using assms(2) by (simp add: valid_index_def)
  then have "currentIndex (goToPrevious imgs s) =
               (currentIndex s - 1 + int (length imgs)) mod int (length imgs)"
    by (rule goToPrevious_index [OF assms(1)])
  then show ?thesis
    using GoToPrevious assms(1) by (simp add: valid_index_def)
qed

section \<open>Lightbox: results\<close>

text \<open>
  C10 (as amended). With an empty image collection every lightbox operation is
  total and harmless: there is no current image, \<open>goToNext\<close> and
  \<open>goToPrevious\<close> return the state they were given, and \<open>goTo(i)\<close> and
  \<open>open(i)\<close> set the index to 0 for every integer \<open>i\<close>, after which
  \<open>hasNext\<close> and \<open>hasPrevious\<close> are false. In any state \<open>hasNext\<close> holds
  exactly when the index is below \<open>-1\<close> and \<open>hasPrevious\<close> exactly when the
  index is above 0. A hook created with initial index 0 keeps index 0 through
  every run of operations, so both flags stay false.
\<close>

theorem empty_collection_operations_safe:
  "currentImage [] s = None
   \<and> goToNext [] s = s
   \<and> goToPrevious [] s = s
   \<and> currentIndex (goTo [] i s) = 0
   \<and> currentIndex (open_lightbox [] (ByIndex i) t a s) = 0
   \<and> \<not> hasNext [] (goTo [] i s)
   \<and> \<not> hasPrevious [] (goTo [] i s)
   \<and> \<not> hasNext [] (open_lightbox [] (ByIndex i) t a s)
   \<and> \<not> hasPrevious [] (open_lightbox [] (ByIndex i) t a s)
   \<and> hasNext [] s = (currentIndex s < - 1)
   \<and> hasPrevious [] s = (0 < currentIndex s)
   \<and> currentIndex (lightbox_run [] ops (useLightbox 0)) = 0
   \<and> \<not> hasNext [] (lightbox_run [] ops (useLightbox 0))
   \<and> \<not> hasPrevious [] (lightbox_run [] ops (useLightbox 0))"
proof -
  have idx: "currentIndex (lightbox_run [] ops (useLightbox 0)) = 0"
    by (rule lightbox_run_empty_index) (simp add: useLightbox_def)
  have g: "currentIndex (goTo [] i s) = 0" by (simp add: goTo_def)
  have p: "currentIndex (open_lightbox [] (ByIndex i) t a s) = 0"
    by (simp add: open_lightbox_def)
  have "currentImage [] s = None" by (simp add: currentImage_def)
  moreover have "goToNext [] s = s" by (simp add: goToNext_def)
  moreover have "goToPrevious [] s = s" by (simp add: goToPrevious_def)
  moreover have "\<not> hasNext [] (goTo [] i s)" using g by (simp add: hasNext_def)
  moreover have "\<not> hasPrevious [] (goTo [] i s)" using g by (simp add: hasPrevious_def)
  moreover have "\<not> hasNext [] (open_lightbox [] (ByIndex i) t a s)"
    using p by (simp add: hasNext_def)
  moreover have "\<not> hasPrevious [] (open_lightbox [] (ByIndex i) t a s)"
    using p by (simp add: hasPrevious_def)
  moreover have "hasNext [] s = (currentIndex s < - 1)" by (simp add: hasNext_def)
  moreover have "hasPrevious [] s = (0 < currentIndex s)" by (simp add: hasPrevious_def)
  moreover have "\<not> hasNext [] (lightbox_run [] ops (useLightbox 0))"
    using idx by (simp add: hasNext_def)
  moreover have "\<not> hasPrevious [] (lightbox_run [] ops (useLightbox 0))"
    using idx by (simp add: hasPrevious_def)
  ultimately show ?thesis using idx g p by blast
qed

text \<open>
  C10 as stated fails: a hook created over an empty collection with initial
  index 5 reports \<open>hasPrevious\<close>, and still does after \<open>goToNext\<close> and
  \<open>goToPrevious\<close>.
\<close>

theorem empty_collection_hasPrevious_initial_index:
  "hasPrevious [] (useLightbox 5)
   \<and> hasPrevious [] (lightbox_run [] [GoToNext, GoToPrevious] (useLightbox 5))
   \<and> currentIndex (lightbox_run [] [GoToNext, GoToPrevious] (useLightbox 5)) = 5"
  by (simp add: hasPrevious_def useLightbox_def lightbox_run_def goToNext_def
                goToPrevious_def)

text \<open>
  C3. Over a non-empty collection of length \<open>n\<close>, from an index \<open>i\<close> of the
  collection \<open>goToNext\<close> moves to \<open>(i + 1) mod n\<close> and \<open>goToPrevious\<close> to
  \<open>(i - 1 + n) mod n\<close>. Neither consults \<open>hasNext\<close> or \<open>hasPrevious\<close>: at
  the last index \<open>hasNext\<close> is false and \<open>goToNext\<close> still moves to 0, at
  index 0 \<open>hasPrevious\<close> is false and \<open>goToPrevious\<close> still moves to the last
  index. Applying \<open>goToNext\<close> \<open>n\<close> times returns the state it started from.
\<close>

theorem goToNext_goToPrevious_wrap_around:
  assumes "imgs \<noteq> []"
    and "0 \<le> currentIndex s"
    and "currentIndex s < int (length imgs)"
  shows "currentIndex (goToNext imgs s) = (currentIndex s + 1) mod int (length imgs)
     \<and> currentIndex (goToPrevious imgs s) =
         (currentIndex s - 1 + int (length imgs)) mod int (length imgs)
     \<and> (if currentIndex s = int (length imgs) - 1
         then \<not> hasNext imgs s \<and> currentIndex (goToNext imgs s) = 0
         else hasNext imgs s)
     \<and> (if currentIndex s = 0
         then \<not> hasPrevious imgs s \<and> currentIndex (goToPrevious imgs s) = int (length imgs) - 1
         else hasPrevious imgs s)
     \<and> (goToNext imgs ^^ length imgs) s = s"
proof -
  let ?n = "int (length imgs)"
  have n: "0 < ?n" using assms(1) by simp
  have nxt: "currentIndex (goToNext imgs s) = (currentIndex s + 1) mod ?n"
    using assms n by (simp add: goToNext_def js_rem_nonneg)
  have prv: "currentIndex (goToPrevious imgs s) = (currentIndex s - 1 + ?n) mod ?n"
    by (rule goToPrevious_index [OF assms(1,2)])
  have last: "currentIndex s = ?n - 1 \<Longrightarrow> currentIndex (goToNext imgs s) = 0"
    using nxt by simp
  have first: "currentIndex (goToPrevious imgs s) = ?n - 1" if z: "currentIndex s = 0"
  proof -
    have e: "currentIndex s - 1 + ?n = ?n - 1" using z by simp
    have "(?n - 1) mod ?n = ?n - 1"
      using n by (intro mod_pos_pos_trivial) simp_all
    then show ?thesis unfolding prv e .
  qed
  have flags_next: "hasNext imgs s \<longleftrightarrow> currentIndex s \<noteq> ?n - 1"
    using assms by (auto simp: hasNext_def)
  have flags_prev: "hasPrevious imgs s \<longleftrightarrow> currentIndex s \<noteq> 0"
    using assms by (auto simp: hasPrevious_def)
  have "(currentIndex s + ?n) mod ?n = currentIndex s"
    using assms by simp
  then have loop: "(goToNext imgs ^^ length imgs) s = s"
    using goToNext_iter [OF assms(1,2), of "length imgs"] assms(1) by simp
  show ?thesis
    using nxt prv last first flags_next flags_prev loop by simp
qed

theorem goToNext_goToPrevious_wrap_around_witness:
  "mockImages \<noteq> []
   \<and> currentIndex (goToNext mockImages \<lparr>isOpen = True, currentIndex = 2, triggerElementRef = None\<rparr>) = 0
   \<and> currentIndex (goToPrevious mockImages \<lparr>isOpen = True, currentIndex = 2, triggerElementRef = None\<rparr>) = 1
   \<and> \<not> hasNext mockImages \<lparr>isOpen = True, currentIndex = 2, triggerElementRef = None\<rparr>
   \<and> (goToNext mockImages ^^ 3) \<lparr>isOpen = True, currentIndex = 2, triggerElementRef = None\<rparr>
       = \<lparr>isOpen = True, currentIndex = 2, triggerElementRef = None\<rparr>"
proof -
  let ?s = "\<lparr>isOpen = True, currentIndex = 2, triggerElementRef = None\<rparr>"
  have len: "length mockImages = 3" by (simp add: mockImages_def)
  have h1: "mockImages \<noteq> []" by (simp add: mockImages_def)
  have h2: "0 \<le> currentIndex ?s" by simp
  have h3: "currentIndex ?s < int (length mockImages)" by (simp add: len)
  show ?thesis
    using goToNext_goToPrevious_wrap_around [OF h1 h2 h3] h1 by (simp add: len)
qed

text \<open>
  C2. While the lightbox is open the current index should be an index of the
  collection. The hook breaks this: opening by an image whose id is not in the
  collection stores the index \<open>images.length\<close> (the source comments this
  branch as adding the image to the array, which it never does), and opening
  on an empty collection stores index 0; in both cases the lightbox is open and
  there is no current image.
\<close>

theorem open_unknown_image_index_past_end:
  "isOpen (open_lightbox mockImages (ByImage strayImage) None None (useLightbox 0))
   \<and> currentIndex (open_lightbox mockImages (ByImage strayImage) None None (useLightbox 0))
       = int (length mockImages)
   \<and> currentImage mockImages
        (open_lightbox mockImages (ByImage strayImage) None None (useLightbox 0)) = None
   \<and> isOpen (open_lightbox [] (ByIndex 0) None None (useLightbox 0))
   \<and> currentIndex (open_lightbox [] (ByIndex 0) None None (useLightbox 0)) = 0
   \<and> currentImage [] (open_lightbox [] (ByIndex 0) None None (useLightbox 0)) = None"
  by (simp add: open_lightbox_def mockImages_def strayImage_def useLightbox_def
                currentImage_def Let_def)

section \<open>Pagination: results\<close>

lemma flatten_pages:
  "flattenGalleryImages (Some \<lparr>pages = ps, pageParams = cs\<rparr>) = concat (map images ps)"
  by (simp add: flattenGalleryImages_def)

text \<open>
  C1 (as amended). The collection is the concatenation of the stored pages'
  images in stored page order: it is empty when there is no data or no page,
  and storing one more page appends that page's images to the collection as
  it was, whatever the pages contain; in particular a page stored a second
  time contributes its images a second time. When the collection so far and
  the new page are each id-distinct and sorted by display order, and every
  image of the new page has an id that is not in the collection and a display
  order not below any in the collection, the extended collection is again
  id-distinct and sorted.
\<close>

theorem flatten_appends_page:
  "flattenGalleryImages None = []
   \<and> flattenGalleryImages (Some \<lparr>pages = [], pageParams = []\<rparr>) = []
   \<and> flattenGalleryImages (Some \<lparr>pages = ps @ [p], pageParams = cs @ [c]\<rparr>)
       = flattenGalleryImages (Some \<lparr>pages = ps, pageParams = cs\<rparr>) @ images p
   \<and> flattenGalleryImages (Some \<lparr>pages = ps @ [p, p], pageParams = cs @ [c, c']\<rparr>)
       = flattenGalleryImages (Some \<lparr>pages = ps, pageParams = cs\<rparr>) @ images p @ images p
   \<and> (distinct (map image_id (flattenGalleryImages (Some \<lparr>pages = ps, pageParams = cs\<rparr>)))
        \<and> sorted (map display_order (flattenGalleryImages (Some \<lparr>pages = ps, pageParams = cs\<rparr>)))
        \<and> distinct (map image_id (images p))
        \<and> sorted (map display_order (images p))
        \<and> (\<forall>x \<in> set (flattenGalleryImages (Some \<lparr>pages = ps, pageParams = cs\<rparr>)).
              \<forall>y \<in> set (images p).
                image_id x \<noteq> image_id y \<and> display_order x \<le> display_order y)
        \<longrightarrow> distinct (map image_id
              (flattenGalleryImages (Some \<lparr>pages = ps @ [p], pageParams = cs @ [c]\<rparr>)))
          \<and> sorted (map display_order
              (flattenGalleryImages (Some \<lparr>pages = ps @ [p], pageParams = cs @ [c]\<rparr>))))"
proof -
  let ?old = "concat (map images ps)"
  have none: "flattenGalleryImages None = []"
    by (simp add: flattenGalleryImages_def)
  have nil: "flattenGalleryImages (Some \<lparr>pages = [], pageParams = []\<rparr>) = []"
    by (simp add: flatten_pages)
  have app: "flattenGalleryImages (Some \<lparr>pages = ps @ [p], pageParams = cs @ [c]\<rparr>)
               = flattenGalleryImages (Some \<lparr>pages = ps, pageParams = cs\<rparr>) @ images p"
    by (simp add: flatten_pages)
  have twice: "flattenGalleryImages (Some \<lparr>pages = ps @ [p, p], pageParams = cs @ [c, c']\<rparr>)
               = flattenGalleryImages (Some \<lparr>pages = ps, pageParams = cs\<rparr>)
                 @ images p @ images p"
    by (simp add: flatten_pages)
  have keep: "distinct (map image_id (?old @ images p))
              \<and> sorted (map display_order (?old @ images p))"
    if "distinct (map image_id ?old)" and "sorted (map display_order ?old)"
      and "distinct (map image_id (images p))" and "sorted (map display_order (images p))"
      and "\<forall>x \<in> set ?old. \<forall>y \<in> set (images p).
             image_id x \<noteq> image_id y \<and> display_order x \<le> display_order y"
  proof
    show "distinct (map image_id (?old @ images p))"
      using that(1,3,5) by auto
    show "sorted (map display_order (?old @ images p))"
      using that(2,4,5) by (auto simp: sorted_append)
  qed
  show ?thesis
    using none nil app twice keep by (simp add: flatten_pages)
qed

theorem flatten_appends_page_witness:
  "map image_id (flattenGalleryImages
      (Some \<lparr>pages = [firstPage] @ [secondPage], pageParams = [None] @ [Some 3]\<rparr>)) = [1, 2, 3, 4]
   \<and> distinct (map image_id (flattenGalleryImages
        (Some \<lparr>pages = [firstPage] @ [secondPage], pageParams = [None] @ [Some 3]\<rparr>)))
   \<and> sorted (map display_order (flattenGalleryImages
        (Some \<lparr>pages = [firstPage] @ [secondPage], pageParams = [None] @ [Some 3]\<rparr>)))"
proof -
  let ?old = "flattenGalleryImages (Some \<lparr>pages = [firstPage], pageParams = [None]\<rparr>)"
  let ?new = "flattenGalleryImages
                (Some \<lparr>pages = [firstPage] @ [secondPage], pageParams = [None] @ [Some 3]\<rparr>)"
  have old: "?old = [testImage 1, testImage 2]"
    by (simp add: flatten_pages firstPage_def)
  have h1: "distinct (map image_id ?old)" unfolding old by (simp add: testImage_def)
  have h2: "sorted (map display_order ?old)" unfolding old by (simp add: testImage_def)
  have h3: "distinct (map image_id (images secondPage))"
    by (simp add: secondPage_def testImage_def)
  have h4: "sorted (map display_order (images secondPage))"
    by (simp add: secondPage_def testImage_def)
  have h5: "\<forall>x \<in> set ?old. \<forall>y \<in> set (images secondPage).
              image_id x \<noteq> image_id y \<and> display_order x \<le> display_order y"
    unfolding old by (simp add: secondPage_def testImage_def)
  note inst = flatten_appends_page [of "[firstPage]" secondPage "[None]" "Some 3"]
  have app: "?new = ?old @ images secondPage"
    using inst by blast
  have ids: "map image_id ?new = [1, 2, 3, 4]"
    unfolding app old by (simp add: secondPage_def testImage_def)
  have "distinct (map image_id ?new) \<and> sorted (map display_order ?new)"
    using inst h1 h2 h3 h4 h5 by blast
  then show ?thesis using ids by blast
qed

text \<open>
  C1 as stated fails: when the server answers the request for the second page
  with the images of the first page again, the collection holds every image
  twice and is not in ascending display order.
\<close>

theorem flatten_keeps_duplicates:
  "getNextPageParam firstPage = Some 3
   \<and> map image_id (flattenGalleryImages
      (Some \<lparr>pages = [firstPage, firstPage], pageParams = [None, Some 3]\<rparr>)) = [1, 2, 1, 2]
   \<and> \<not> distinct (map image_id (flattenGalleryImages
          (Some \<lparr>pages = [firstPage, firstPage], pageParams = [None, Some 3]\<rparr>)))
   \<and> \<not> sorted (map display_order (flattenGalleryImages
          (Some \<lparr>pages = [firstPage, firstPage], pageParams = [None, Some 3]\<rparr>)))"
  by (simp add: flatten_pages getNextPageParam_def firstPage_def testImage_def)

text \<open>
  C5. The retry predicate is documented as never retrying a 4xx failure and
  retrying every other failure up to three times. It decides by looking for the
  character 4 in the error message: the 400 response of the client's own test
  (detail message ``Invalid limit parameter'') is retried at failure counts 0,
  1 and 2, and a 504 response without a JSON body is not retried at all.
\<close>

theorem retry_decides_by_message_text:
  \<open>fetchGalleryImages
     (HttpError 400 ''Bad Request''
        (Detail (DetailObject (Some ''Invalid limit parameter'')
                   ''{"message":"Invalid limit parameter"}'')))
     = Inl ''Gallery fetch failed: Invalid limit parameter''
   \<and> retry 0 ''Gallery fetch failed: Invalid limit parameter''
   \<and> retry 1 ''Gallery fetch failed: Invalid limit parameter''
   \<and> retry 2 ''Gallery fetch failed: Invalid limit parameter''
   \<and> fetchGalleryImages (HttpError 504 ''Gateway Timeout'' NotJson)
     = Inl ''Gallery fetch failed: Gallery API error: 504 Gateway Timeout''
   \<and> \<not> retry 0 ''Gallery fetch failed: Gallery API error: 504 Gateway Timeout''\<close>
  by (simp add: fetchGalleryImages_def errorMessage_def retry_def)

section \<open>Deep link: results\<close>

text \<open>
  C7. A deep-linked id that is not among the loaded images should trigger a
  fetch of the next page while more pages exist, and the not-found redirect
  only when none is left. The effect redirects to the not-found route while
  more pages exist and a page fetch is in flight, which is the state its own
  call of \<open>fetchNextPage\<close> produces; the source comments that branch as
  ``Image not found and no more pages''. With the collection loaded and
  empty and no more pages, the effect does nothing.
\<close>

theorem deep_link_redirects_while_fetching:
  "deepLinkEffect None (Some ''999'') False mockImages True False = FetchNextPage
   \<and> deepLinkEffect None (Some ''999'') False mockImages True True = NavigateNotFound
   \<and> deepLinkEffect None (Some ''999'') False mockImages False False = NavigateNotFound
   \<and> deepLinkEffect None (Some ''999'') False [] False False = NoAction"
  by (simp add: deepLinkEffect_def parseInt_def is_js_space_def is_digit_def
                to_double_def same_id_def mockImages_def Let_def)

section \<open>Window calculator: results\<close>















text \<open>
  C8. The window calculator should use one column below 768px, two from 768px
  to 1023px and three from 1024px on, as the repository's other grid and its
  media queries do. It compares with \<open>>\<close>, so that exactly at 768px it uses
  one column and exactly at 1024px two, where \<open>getGridDimensions\<close> gives two
  and three.
\<close>

theorem itemsPerRow_at_breakpoints:
  "itemsPerRow 768 = 1 \<and> itemsPerRow 1024 = 2
   \<and> getGridDimensions_columns 768 = 2 \<and> getGridDimensions_columns 1024 = 3
   \<and> itemsPerRow 767 = 1 \<and> itemsPerRow 769 = 2
   \<and> itemsPerRow 1023 = 2 \<and> itemsPerRow 1025 = 3"
  by (simp add: itemsPerRow_def getGridDimensions_columns_def)

section \<open>Pinch gesture: results\<close>

lemma js_clamp_finite:
  "js_max (Num lo) (js_min (Num hi) (Num x)) = Num (max lo (min hi x))"
  by (simp add: max_def min_def)

lemma handleTouchMove_finite:
  assumes "pinchStateRef st = Some ps"
    and "initialScale ps = Num s0"
    and "initialDistance ps \<noteq> 0"
  shows "handleTouchMove lo hi [t1, t2] st =
           (Some (Num (max lo (min hi (s0 * (getDistance t1 t2 / initialDistance ps))))),
            st\<lparr>scale := Num (max lo (min hi (s0 * (getDistance t1 t2 / initialDistance ps))))\<rparr>)"
  using assms
  by (simp add: handleTouchMove_def updateScale_def js_div_def Let_def js_clamp_finite
           del: js_max.simps js_min.simps)

lemma getDistance_euclidean:
  "getDistance a b = sqrt ((fst b - fst a)\<^sup>2 + (snd b - snd a)\<^sup>2)"
  by (simp add: getDistance_def Let_def power2_eq_square)

lemma getDistance_pos:
  assumes "a \<noteq> b"
  shows "0 < getDistance a b"
proof -
  have "fst b - fst a \<noteq> 0 \<or> snd b - snd a \<noteq> 0"
    using assms by (auto simp: prod_eq_iff)
  then have "0 < (fst b - fst a)\<^sup>2 + (snd b - snd a)\<^sup>2"
    by (simp add: sum_power2_gt_zero_iff)
  then show ?thesis
    by (simp add: getDistance_euclidean)
qed

text \<open>
  C9. A two-touch start at two distinct points \<open>a\<close>, \<open>b\<close> while the scale
  is \<open>s0\<close> records the Euclidean distance \<open>d0 > 0\<close> of \<open>a\<close> and \<open>b\<close>
  together with \<open>s0\<close>. As long as that record is in place, every move
  with two touches \<open>t1\<close>, \<open>t2\<close> at Euclidean distance \<open>d\<close> emits and
  stores the scale \<open>max minScale (min maxScale (s0 * (d / d0)))\<close> and leaves
  the record as it is, so the same holds for the next move. The default
  bounds are 1 and 5.
\<close>

theorem pinch_scale_is_clamped_ratio:
  assumes "scale st0 = Num s0"
    and "a \<noteq> b"
    and "pinchStateRef st = pinchStateRef (handleTouchStart [a, b] st0)"
  shows "0 < sqrt ((fst b - fst a)\<^sup>2 + (snd b - snd a)\<^sup>2)
     \<and> pinchStateRef (handleTouchStart [a, b] st0)
           = Some \<lparr>initialDistance = sqrt ((fst b - fst a)\<^sup>2 + (snd b - snd a)\<^sup>2),
                   initialScale = Num s0, touches = (a, b)\<rparr>
     \<and> scale (handleTouchStart [a, b] st0) = Num s0
     \<and> fst (handleTouchMove minScale maxScale [t1, t2] st)
           = Some (Num (max minScale (min maxScale
               (s0 * (sqrt ((fst t2 - fst t1)\<^sup>2 + (snd t2 - snd t1)\<^sup>2)
                      / sqrt ((fst b - fst a)\<^sup>2 + (snd b - snd a)\<^sup>2))))))
     \<and> scale (snd (handleTouchMove minScale maxScale [t1, t2] st))
           = Num (max minScale (min maxScale
               (s0 * (sqrt ((fst t2 - fst t1)\<^sup>2 + (snd t2 - snd t1)\<^sup>2)
                      / sqrt ((fst b - fst a)\<^sup>2 + (snd b - snd a)\<^sup>2)))))
     \<and> pinchStateRef (snd (handleTouchMove minScale maxScale [t1, t2] st)) = pinchStateRef st
     \<and> minScale_default = 1 \<and> maxScale_default = 5"
proof -
  let ?dstart = "sqrt ((fst b - fst a)\<^sup>2 + (snd b - snd a)\<^sup>2)"
  let ?dcur = "sqrt ((fst t2 - fst t1)\<^sup>2 + (snd t2 - snd t1)\<^sup>2)"
  let ?ps = "\<lparr>initialDistance = ?dstart, initialScale = Num s0, touches = (a, b)\<rparr>"
  have pos: "0 < ?dstart"
    using getDistance_pos [OF assms(2)] by (simp add: getDistance_euclidean)
  have started: "pinchStateRef (handleTouchStart [a, b] st0) = Some ?ps"
    using assms(1) by (simp add: handleTouchStart_def getDistance_euclidean)
  have kept: "scale (handleTouchStart [a, b] st0) = Num s0"
    using assms(1) by (simp add: handleTouchStart_def)
  have ref: "pinchStateRef st = Some ?ps"
    using assms(3) started by simp
  have nz: "initialDistance ?ps \<noteq> 0"
    using assms(2) by (auto simp: prod_eq_iff)
  have move: "handleTouchMove minScale maxScale [t1, t2] st =
      (Some (Num (max minScale (min maxScale (s0 * (?dcur / ?dstart))))),
       st\<lparr>scale := Num (max minScale (min maxScale (s0 * (?dcur / ?dstart))))\<rparr>)"
    using handleTouchMove_finite [OF ref _ nz, of s0 minScale maxScale t1 t2]
    by (simp add: getDistance_euclidean)
  have e1: "fst (handleTouchMove minScale maxScale [t1, t2] st)
              = Some (Num (max minScale (min maxScale (s0 * (?dcur / ?dstart)))))"
    unfolding move by simp
  have e2: "scale (snd (handleTouchMove minScale maxScale [t1, t2] st))
              = Num (max minScale (min maxScale (s0 * (?dcur / ?dstart))))"
    unfolding move by simp
  have e3: "pinchStateRef (snd (handleTouchMove minScale maxScale [t1, t2] st)) = pinchStateRef st"
    unfolding move by simp
  have dflt: "minScale_default = 1 \<and> maxScale_default = 5"
    by (simp add: minScale_default_def maxScale_default_def)
  show ?thesis
    using pos started kept e1 e2 e3 dflt by blast
qed

theorem pinch_scale_is_clamped_ratio_witness:
  "((10, 20) :: Touch) \<noteq> (70, 100)
   \<and> getDistance (10, 20) (70, 100) = 100
   \<and> getDistance (5, 5) (185, 245) = 300
   \<and> fst (handleTouchMove minScale_default maxScale_default [(5, 5), (185, 245)]
        (handleTouchStart [(10, 20), (70, 100)] (usePinchZoom initialScale_default)))
      = Some (Num 3)
   \<and> fst (handleTouchMove minScale_default maxScale_default [(0, 0), (600, 800)]
        (handleTouchStart [(10, 20), (70, 100)] (usePinchZoom initialScale_default)))
      = Some (Num 5)"
proof -
  let ?init = "usePinchZoom initialScale_default"
  let ?started = "handleTouchStart [(10, 20), (70, 100)] ?init"
  have h1: "scale ?init = Num 1"
    by (simp add: usePinchZoom_def initialScale_default_def)
  have h2: "((10, 20) :: Touch) \<noteq> (70, 100)" by simp
  have h3: "pinchStateRef ?started = pinchStateRef ?started" ..
  have d0: "sqrt ((fst ((70, 100) :: Touch) - fst ((10, 20) :: Touch))\<^sup>2
                  + (snd ((70, 100) :: Touch) - snd ((10, 20) :: Touch))\<^sup>2) = 100"
    by simp
  have d1: "sqrt ((fst ((185, 245) :: Touch) - fst ((5, 5) :: Touch))\<^sup>2
                  + (snd ((185, 245) :: Touch) - snd ((5, 5) :: Touch))\<^sup>2) = 300"
    by simp
  have d2: "sqrt ((fst ((600, 800) :: Touch) - fst ((0, 0) :: Touch))\<^sup>2
                  + (snd ((600, 800) :: Touch) - snd ((0, 0) :: Touch))\<^sup>2) = 1000"
    by simp
  have g0: "getDistance (10, 20) (70, 100) = 100" by (simp add: getDistance_def)
  have g1: "getDistance (5, 5) (185, 245) = 300" by (simp add: getDistance_def)
  have c1: "max minScale_default (min maxScale_default (1 * (300 / 100))) = (3::real)"
    by (simp add: minScale_default_def maxScale_default_def)
  have c2: "max minScale_default (min maxScale_default (1 * (1000 / 100))) = (5::real)"
    by (simp add: minScale_default_def maxScale_default_def)
  have m1: "fst (handleTouchMove minScale_default maxScale_default [(5, 5), (185, 245)] ?started)
              = Some (Num 3)"
    using pinch_scale_is_clamped_ratio [OF h1 h2 h3, of minScale_default maxScale_default
                                         "(5, 5)" "(185, 245)"]
    unfolding d0 d1 c1 by blast
  have m2: "fst (handleTouchMove minScale_default maxScale_default [(0, 0), (600, 800)] ?started)
              = Some (Num 5)"
    using pinch_scale_is_clamped_ratio [OF h1 h2 h3, of minScale_default maxScale_default
                                         "(0, 0)" "(600, 800)"]
    unfolding d0 d2 c2 by blast
  show ?thesis using h2 g0 g1 m1 m2 by blast
qed

end
